theory Spec2Isabelle
  imports Main
begin

section \<open>Python values, dates and the two parsers the handlers call\<close>

text \<open>
  The values that reach the handlers after \<^verbatim>\<open>request.get_json()\<close>: the fragment of
  JSON with \<^verbatim>\<open>null\<close>, integers and strings. Booleans, floats, arrays and nested objects
  are outside the model. A decoded request body is a Python dict, kept as the list of
  its items, or \<open>None\<close> where \<^verbatim>\<open>get_json\<close> returns no data (the JSON text \<^verbatim>\<open>null\<close>; before
  Flask 2.1 also a request without a JSON body). A string is a list of characters with
  code points below 256.
\<close>

datatype pyval = PyNone | PyInt int | PyStr string

type_synonym pydict = "(string \<times> pyval) list"

text \<open>
  The decoder builds an integer with \<^verbatim>\<open>int\<close>, which refuses more than 4300 digits, so
  the integers of a decoded body are the ones Python can also print with \<^verbatim>\<open>str\<close>.
\<close>

definition decodable :: "pyval \<Rightarrow> bool" where
  "decodable v = (case v of PyInt i \<Rightarrow> \<bar>i\<bar> < 10 ^ 4300 | _ \<Rightarrow> True)"

text \<open>
  \<^verbatim>\<open>request.get_json()\<close> either raises \<^verbatim>\<open>BadRequest\<close>, for a body that cannot be decoded
  (from Flask 2.1 also for a request without a JSON body), or returns the decoded body.
\<close>

datatype get_json = Bad_request | Json "pydict option"

text \<open>\<^verbatim>\<open>datetime.date\<close>: year, month, day.\<close>

record date =
  d_year :: nat
  d_month :: nat
  d_day :: nat

text \<open>
  Exceptions. \<open>ValueError\<close>, \<open>TypeError\<close>, \<open>AttributeError\<close> and \<open>KeyError\<close> are the
  builtins; \<open>BadRequest\<close> is the exception of \<^verbatim>\<open>get_json\<close>; \<open>MySQLError\<close> stands for \<^verbatim>\<open>pymysql.Error\<close> and its subclasses, with the
  store's reason; \<open>Exception\<close> is the plain \<^verbatim>\<open>raise Exception(msg)\<close> of the source, one
  \<open>message\<close> per message text:
  \<^item> \<open>Failed_to_connect\<close>: "Failed to connect to database"
  \<^item> \<open>Student_ID_required\<close>: "Student ID is required"
  \<^item> \<open>Already_exists i\<close>: "Student with ID i already exists"
  \<^item> \<open>Not_found i\<close>: "Student with ID i not found"
  \<^item> \<open>Already_marked i d\<close>: "Attendance already marked for student i on d"
  \<^item> \<open>Database_error e\<close>: "Database error: " followed by the store's text
  \<^item> \<open>Not_initialized\<close>: "Database system not initialized"
\<close>

datatype mysql_err =
    Duplicate_entry | Column_cannot_be_null | Data_too_long | Data_truncated
  | Out_of_range | Foreign_key_fails

datatype message =
    Failed_to_connect | Student_ID_required | Already_exists int | Not_found int
  | Already_marked int date | Database_error mysql_err | Not_initialized

datatype exn =
    ValueError | TypeError | AttributeError | KeyError | BadRequest
  | MySQLError mysql_err
  | Exception message

subsection \<open>Decimal text\<close>

definition is_digit :: "char \<Rightarrow> bool" where
  "is_digit c = (c \<in> set ''0123456789'')"

definition digit_val :: "char \<Rightarrow> nat" where
  "digit_val c = of_char c - 48"

fun dec_nat :: "nat \<Rightarrow> string" where
  "dec_nat n =
     (if n < 10 then [char_of (48 + n)]
      else dec_nat (n div 10) @ [char_of (48 + n mod 10)])"

declare dec_nat.simps [simp del]

text \<open>\<^verbatim>\<open>str(i)\<close> for an int.\<close>

definition str_int :: "int \<Rightarrow> string" where
  "str_int i = (if i < 0 then CHR ''-'' # dec_nat (nat (- i)) else dec_nat (nat i))"

text \<open>\<^verbatim>\<open>'%0*d'\<close>: left-pad with zeros to a width.\<close>

definition zfill :: "nat \<Rightarrow> string \<Rightarrow> string" where
  "zfill w s = replicate (w - length s) CHR ''0'' @ s"

text \<open>\<^verbatim>\<open>str(d)\<close> for a date is \<^verbatim>\<open>d.isoformat()\<close>.\<close>

definition isoformat :: "date \<Rightarrow> string" where
  "isoformat d =
     zfill 4 (dec_nat (d_year d)) @ ''-'' @ zfill 2 (dec_nat (d_month d)) @ ''-''
       @ zfill 2 (dec_nat (d_day d))"

subsection \<open>\<^verbatim>\<open>int(x)\<close>\<close>

text \<open>
  \<^verbatim>\<open>int\<close> of a string strips white space (tab, line feed, vertical tab, form feed,
  carriage return, space, and the code points 0x85 and 0xA0), reads an optional sign and
  then decimal digits, where single underscores may separate digits; anything else is a
  \<open>ValueError\<close>, and so is a text of more than 4300 digits. \<^verbatim>\<open>int(None)\<close> is a
  \<open>TypeError\<close>.
\<close>

definition is_space :: "char \<Rightarrow> bool" where
  "is_space c =
     (c \<in> set [CHR '' '', CHR 0x09, CHR 0x0A, CHR 0x0B, CHR 0x0C, CHR 0x0D,
                CHR 0x85, CHR 0xA0])"

definition strip :: "string \<Rightarrow> string" where
  "strip s = rev (dropWhile is_space (rev (dropWhile is_space s)))"

fun py_digits :: "nat \<Rightarrow> string \<Rightarrow> nat option" where
  "py_digits acc [] = None"
| "py_digits acc (c # cs) =
     (if is_digit c then
        (case cs of
           [] \<Rightarrow> Some (10 * acc + digit_val c)
         | d # ds \<Rightarrow>
             if d = CHR ''_'' then py_digits (10 * acc + digit_val c) ds
             else py_digits (10 * acc + digit_val c) cs)
      else None)"

definition int_of_str :: "string \<Rightarrow> exn + int" where
  "int_of_str s =
     (case strip s of
        [] \<Rightarrow> Inl ValueError
      | c # cs \<Rightarrow>
          if length (filter is_digit (c # cs)) > 4300 then Inl ValueError
          else if c = CHR ''-'' then
            (case py_digits 0 cs of None \<Rightarrow> Inl ValueError | Some n \<Rightarrow> Inr (- int n))
          else if c = CHR ''+'' then
            (case py_digits 0 cs of None \<Rightarrow> Inl ValueError | Some n \<Rightarrow> Inr (int n))
          else
            (case py_digits 0 (c # cs) of None \<Rightarrow> Inl ValueError | Some n \<Rightarrow> Inr (int n)))"

fun py_int :: "pyval \<Rightarrow> exn + int" where
  "py_int PyNone = Inl TypeError"
| "py_int (PyInt i) = Inr i"
| "py_int (PyStr s) = int_of_str s"

subsection \<open>\<^verbatim>\<open>datetime.strptime(s, '%Y-%m-%d').date()\<close>\<close>

text \<open>
  The library compiles the format to the regular expression
  \<^verbatim>\<open>(?P<Y>\d\d\d\d)-(?P<m>1[0-2]|0[1-9]|[1-9])-(?P<d>3[01]|[12]\d|0[1-9]|[1-9]| [1-9])\<close>,
  matches it at the start of the string, raises \<open>ValueError\<close> when text remains after
  the match, and then builds the date, which raises \<open>ValueError\<close> for year 0 and for a
  day the month does not have. The month alternatives are tried in order; a later one
  can never rescue a failed hyphen after an earlier one, so the first that matches
  decides. The day is the last group, so its first matching alternative is the match.
\<close>

definition is_leap :: "nat \<Rightarrow> bool" where
  "is_leap y = (y mod 4 = 0 \<and> (y mod 100 \<noteq> 0 \<or> y mod 400 = 0))"

definition days_in_month :: "nat \<Rightarrow> nat \<Rightarrow> nat" where
  "days_in_month y m =
     (if m = 2 then (if is_leap y then 29 else 28)
      else if m \<in> set [4, 6, 9, 11] then 30 else 31)"

definition make_date :: "nat \<Rightarrow> nat \<Rightarrow> nat \<Rightarrow> date option" where
  "make_date y m d =
     (if 1 \<le> y \<and> y \<le> 9999 \<and> 1 \<le> m \<and> m \<le> 12 \<and> 1 \<le> d \<and> d \<le> days_in_month y m
      then Some \<lparr>d_year = y, d_month = m, d_day = d\<rparr> else None)"

definition is_digit19 :: "char \<Rightarrow> bool" where
  "is_digit19 c = (c \<in> set ''123456789'')"

fun match_month :: "string \<Rightarrow> (nat \<times> string) option" where
  "match_month [] = None"
| "match_month [c] = (if is_digit19 c then Some (digit_val c, []) else None)"
| "match_month (c1 # c2 # r) =
     (if c1 = CHR ''1'' \<and> c2 \<in> set ''012'' then Some (10 + digit_val c2, r)
      else if c1 = CHR ''0'' \<and> is_digit19 c2 then Some (digit_val c2, r)
      else if is_digit19 c1 then Some (digit_val c1, c2 # r)
      else None)"

fun match_day :: "string \<Rightarrow> (nat \<times> string) option" where
  "match_day [] = None"
| "match_day [c] = (if is_digit19 c then Some (digit_val c, []) else None)"
| "match_day (c1 # c2 # r) =
     (if c1 = CHR ''3'' \<and> c2 \<in> set ''01'' then Some (30 + digit_val c2, r)
      else if c1 \<in> set ''12'' \<and> is_digit c2 then Some (10 * digit_val c1 + digit_val c2, r)
      else if c1 = CHR ''0'' \<and> is_digit19 c2 then Some (digit_val c2, r)
      else if is_digit19 c1 then Some (digit_val c1, c2 # r)
      else if c1 = CHR '' '' \<and> is_digit19 c2 then Some (digit_val c2, r)
      else None)"

definition strptime_ymd :: "string \<Rightarrow> date option" where
  "strptime_ymd s =
     (case s of
        y1 # y2 # y3 # y4 # h1 # r \<Rightarrow>
          if is_digit y1 \<and> is_digit y2 \<and> is_digit y3 \<and> is_digit y4 \<and> h1 = CHR ''-'' then
            (case match_month r of
               None \<Rightarrow> None
             | Some (m, r1) \<Rightarrow>
                 (case r1 of
                    [] \<Rightarrow> None
                  | h2 # r2 \<Rightarrow>
                      if h2 = CHR ''-'' then
                        (case match_day r2 of
                           None \<Rightarrow> None
                         | Some (d, r3) \<Rightarrow>
                             if r3 = [] then
                               make_date
                                 (1000 * digit_val y1 + 100 * digit_val y2
                                    + 10 * digit_val y3 + digit_val y4) m d
                             else None)
                      else None))
          else None
      | _ \<Rightarrow> None)"

text \<open>
  \<^verbatim>\<open>strptime\<close> applied to a request value: anything but a string is a \<open>TypeError\<close>,
  a string the format rejects a \<open>ValueError\<close>.
\<close>

fun strptime_val :: "pyval \<Rightarrow> exn + date" where
  "strptime_val (PyStr s) = (case strptime_ymd s of None \<Rightarrow> Inl ValueError | Some d \<Rightarrow> Inr d)"
| "strptime_val v = Inl TypeError"

section \<open>The store\<close>

text \<open>
  The two tables of \<^verbatim>\<open>create_tables\<close>, each a list of rows in the order of insertion:
  \<^verbatim>\<open>students(id INT PRIMARY KEY, name VARCHAR(100) NOT NULL, class VARCHAR(50) NOT NULL)\<close>
  and
  \<^verbatim>\<open>attendance(student_id INT NOT NULL, date DATE NOT NULL,
       status ENUM('Present','Absent') NOT NULL,
       FOREIGN KEY (student_id) REFERENCES students(id), PRIMARY KEY (student_id, date))\<close>.
  \<open>reachable\<close> says whether \<^verbatim>\<open>pymysql.connect\<close> succeeds; \<open>system_set\<close> says whether the
  module's global \<^verbatim>\<open>system\<close> has been set by \<^verbatim>\<open>initialize_system\<close>.

  The store enforces the declared schema by rejection: a statement that would break a
  declared column type or key raises a \<^verbatim>\<open>pymysql.Error\<close> and changes nothing.
\<close>

record student_row =
  st_id :: int
  st_name :: string
  st_class :: string

record attendance_row =
  a_student_id :: int
  a_date :: date
  a_status :: string

record world =
  system_set :: bool
  reachable :: bool
  students :: "student_row list"
  attendance :: "attendance_row list"

subsection \<open>Column types\<close>

definition int_col :: "int \<Rightarrow> bool" where
  "int_col i = (- 2147483648 \<le> i \<and> i \<le> 2147483647)"

text \<open>A \<^verbatim>\<open>VARCHAR(n) NOT NULL\<close> column; a number parameter is stored as its decimal text.\<close>

fun varchar :: "nat \<Rightarrow> pyval \<Rightarrow> mysql_err + string" where
  "varchar n PyNone = Inl Column_cannot_be_null"
| "varchar n (PyStr s) = (if length s \<le> n then Inr s else Inl Data_too_long)"
| "varchar n (PyInt i) = (if length (str_int i) \<le> n then Inr (str_int i) else Inl Data_too_long)"

text \<open>
  The \<^verbatim>\<open>ENUM('Present','Absent') NOT NULL\<close> column; a number parameter is the index of
  a member.
\<close>

fun status_col :: "pyval \<Rightarrow> mysql_err + string" where
  "status_col PyNone = Inl Column_cannot_be_null"
| "status_col (PyStr s) = (if s \<in> set [''Present'', ''Absent''] then Inr s else Inl Data_truncated)"
| "status_col (PyInt i) =
     (if i = 1 then Inr ''Present'' else if i = 2 then Inr ''Absent'' else Inl Data_truncated)"

subsection \<open>Statements\<close>

text \<open>\<^verbatim>\<open>SELECT ... FROM students WHERE id = %s\<close> followed by \<^verbatim>\<open>fetchone()\<close>.\<close>

definition select_student :: "int \<Rightarrow> world \<Rightarrow> student_row option" where
  "select_student sid w = find (\<lambda>r. st_id r = sid) (students w)"

text \<open>\<^verbatim>\<open>SELECT ... FROM attendance WHERE student_id = %s AND date = %s\<close>, \<^verbatim>\<open>fetchone()\<close>.\<close>

definition select_attendance :: "int \<Rightarrow> date \<Rightarrow> world \<Rightarrow> attendance_row option" where
  "select_attendance sid d w =
     find (\<lambda>r. a_student_id r = sid \<and> a_date r = d) (attendance w)"

text \<open>\<^verbatim>\<open>SELECT ... FROM attendance WHERE student_id = %s\<close>, \<^verbatim>\<open>fetchall()\<close>.\<close>

definition select_attendance_by_student :: "int \<Rightarrow> world \<Rightarrow> attendance_row list" where
  "select_attendance_by_student sid w = filter (\<lambda>r. a_student_id r = sid) (attendance w)"

text \<open>\<^verbatim>\<open>INSERT INTO students (id, name, class) VALUES (%s, %s, %s)\<close>.\<close>

definition insert_student :: "int \<Rightarrow> pyval \<Rightarrow> pyval \<Rightarrow> world \<Rightarrow> mysql_err + world" where
  "insert_student sid nm cl w =
     (if \<not> int_col sid then Inl Out_of_range
      else case varchar 100 nm of
        Inl e \<Rightarrow> Inl e
      | Inr n \<Rightarrow>
          (case varchar 50 cl of
             Inl e \<Rightarrow> Inl e
           | Inr c \<Rightarrow>
               if select_student sid w \<noteq> None then Inl Duplicate_entry
               else Inr (w\<lparr>students :=
                           students w @ [\<lparr>st_id = sid, st_name = n, st_class = c\<rparr>]\<rparr>)))"

text \<open>
  \<^verbatim>\<open>UPDATE students SET name=%s, class=%s WHERE id=%s\<close>. With no matching row nothing
  is assigned and the statement succeeds.
\<close>

definition update_student_rows :: "int \<Rightarrow> pyval \<Rightarrow> pyval \<Rightarrow> world \<Rightarrow> mysql_err + world" where
  "update_student_rows sid nm cl w =
     (if select_student sid w = None then Inr w
      else case varchar 100 nm of
        Inl e \<Rightarrow> Inl e
      | Inr n \<Rightarrow>
          (case varchar 50 cl of
             Inl e \<Rightarrow> Inl e
           | Inr c \<Rightarrow>
               Inr (w\<lparr>students :=
                       map (\<lambda>r. if st_id r = sid then r\<lparr>st_name := n, st_class := c\<rparr> else r)
                         (students w)\<rparr>)))"

text \<open>\<^verbatim>\<open>DELETE FROM attendance WHERE student_id=%s\<close>.\<close>

definition delete_attendance_rows_of :: "int \<Rightarrow> world \<Rightarrow> world" where
  "delete_attendance_rows_of sid w =
     w\<lparr>attendance := filter (\<lambda>r. a_student_id r \<noteq> sid) (attendance w)\<rparr>"

text \<open>
  \<^verbatim>\<open>DELETE FROM students WHERE id=%s\<close>. The foreign key of \<open>attendance\<close> refuses the
  deletion of a student row that attendance rows still reference.
\<close>

definition delete_student_row :: "int \<Rightarrow> world \<Rightarrow> mysql_err + world" where
  "delete_student_row sid w =
     (if select_student sid w \<noteq> None \<and> select_attendance_by_student sid w \<noteq> []
      then Inl Foreign_key_fails
      else Inr (w\<lparr>students := filter (\<lambda>r. st_id r \<noteq> sid) (students w)\<rparr>))"

text \<open>\<^verbatim>\<open>INSERT INTO attendance (student_id, date, status) VALUES (%s, %s, %s)\<close>.\<close>

definition insert_attendance :: "int \<Rightarrow> date \<Rightarrow> pyval \<Rightarrow> world \<Rightarrow> mysql_err + world" where
  "insert_attendance sid d st w =
     (if \<not> int_col sid then Inl Out_of_range
      else case status_col st of
        Inl e \<Rightarrow> Inl e
      | Inr s \<Rightarrow>
          if select_attendance sid d w \<noteq> None then Inl Duplicate_entry
          else if select_student sid w = None then Inl Foreign_key_fails
          else Inr (w\<lparr>attendance :=
                      attendance w @ [\<lparr>a_student_id = sid, a_date = d, a_status = s\<rparr>]\<rparr>))"

text \<open>
  \<^verbatim>\<open>UPDATE attendance SET status=%s WHERE student_id=%s AND date=%s\<close>. With no
  matching row nothing is assigned and the statement succeeds.
\<close>

definition update_attendance_rows :: "int \<Rightarrow> date \<Rightarrow> pyval \<Rightarrow> world \<Rightarrow> mysql_err + world" where
  "update_attendance_rows sid d st w =
     (if select_attendance sid d w = None then Inr w
      else case status_col st of
        Inl e \<Rightarrow> Inl e
      | Inr s \<Rightarrow>
          Inr (w\<lparr>attendance :=
                  map (\<lambda>r. if a_student_id r = sid \<and> a_date r = d then r\<lparr>a_status := s\<rparr> else r)
                    (attendance w)\<rparr>))"

text \<open>\<^verbatim>\<open>DELETE FROM attendance WHERE student_id=%s AND date=%s\<close>.\<close>

definition delete_attendance_row :: "int \<Rightarrow> date \<Rightarrow> world \<Rightarrow> world" where
  "delete_attendance_row sid d w =
     w\<lparr>attendance := filter (\<lambda>r. \<not> (a_student_id r = sid \<and> a_date r = d)) (attendance w)\<rparr>"

text \<open>
  \<^verbatim>\<open>SELECT s.id as student_id, s.name, s.class, a.date, a.status
     FROM attendance a JOIN students s ON a.student_id=s.id\<close>.
\<close>

definition select_joined :: "world \<Rightarrow> (student_row \<times> attendance_row) list" where
  "select_joined w =
     concat (map (\<lambda>a. map (\<lambda>s. (s, a)) (filter (\<lambda>s. st_id s = a_student_id a) (students w)))
               (attendance w))"

section \<open>The repository: class \<^verbatim>\<open>AttendanceSystem\<close> of \<^verbatim>\<open>std_db.py\<close>\<close>

text \<open>
  Every method opens its own connection. \<^verbatim>\<open>connect_db\<close> returns \<open>None\<close> when the store
  cannot be reached. A method that does not test the connection then fails at
  \<^verbatim>\<open>conn.cursor()\<close> with an \<open>AttributeError\<close>. Each method returns its result, or the
  exception it raises, together with the store.
\<close>

definition connect_db :: "world \<Rightarrow> bool" where
  "connect_db w = reachable w"

definition add_student :: "world \<Rightarrow> pyval \<times> pyval \<Rightarrow> int option \<Rightarrow> (exn + int) \<times> world" where
  "add_student w student student_id =
     (if \<not> connect_db w then (Inl (Exception Failed_to_connect), w)
      else case student_id of
        None \<Rightarrow> (Inl (Exception Student_ID_required), w)
      | Some sid \<Rightarrow>
          if select_student sid w \<noteq> None then (Inl (Exception (Already_exists sid)), w)
          else (case insert_student sid (fst student) (snd student) w of
                  Inl err \<Rightarrow> (Inl (Exception (Database_error err)), w)
                | Inr w' \<Rightarrow> (Inr sid, w')))"

definition update_student :: "world \<Rightarrow> int \<Rightarrow> pyval \<times> pyval \<Rightarrow> (exn + unit) \<times> world" where
  "update_student w sid new_data =
     (if \<not> connect_db w then (Inl AttributeError, w)
      else case update_student_rows sid (fst new_data) (snd new_data) w of
        Inl err \<Rightarrow> (Inl (MySQLError err), w)
      | Inr w' \<Rightarrow> (Inr (), w'))"

definition delete_student :: "world \<Rightarrow> int \<Rightarrow> (exn + unit) \<times> world" where
  "delete_student w sid =
     (if \<not> connect_db w then (Inl AttributeError, w)
      else case delete_student_row sid (delete_attendance_rows_of sid w) of
        Inl err \<Rightarrow> (Inl (MySQLError err), w)
      | Inr w' \<Rightarrow> (Inr (), w'))"

definition get_student :: "world \<Rightarrow> int \<Rightarrow> student_row option" where
  "get_student w sid = (if \<not> connect_db w then None else select_student sid w)"

definition list_students :: "world \<Rightarrow> student_row list" where
  "list_students w = (if \<not> connect_db w then [] else students w)"

definition mark_attendance :: "world \<Rightarrow> int \<Rightarrow> date \<Rightarrow> pyval \<Rightarrow> (exn + int \<times> date) \<times> world" where
  "mark_attendance w student_id at_date status =
     (if \<not> connect_db w then (Inl (Exception Failed_to_connect), w)
      else if select_student student_id w = None
        then (Inl (Exception (Not_found student_id)), w)
      else if select_attendance student_id at_date w \<noteq> None
        then (Inl (Exception (Already_marked student_id at_date)), w)
      else case insert_attendance student_id at_date status w of
        Inl err \<Rightarrow> (Inl (Exception (Database_error err)), w)
      | Inr w' \<Rightarrow> (Inr (student_id, at_date), w'))"

definition update_attendance :: "world \<Rightarrow> int \<Rightarrow> date \<Rightarrow> pyval \<Rightarrow> (exn + unit) \<times> world" where
  "update_attendance w student_id at_date new_status =
     (if \<not> connect_db w then (Inl AttributeError, w)
      else case update_attendance_rows student_id at_date new_status w of
        Inl err \<Rightarrow> (Inl (MySQLError err), w)
      | Inr w' \<Rightarrow> (Inr (), w'))"

definition delete_attendance :: "world \<Rightarrow> int \<Rightarrow> date \<Rightarrow> (exn + unit) \<times> world" where
  "delete_attendance w student_id at_date =
     (if \<not> connect_db w then (Inl AttributeError, w)
      else (Inr (), delete_attendance_row student_id at_date w))"

definition get_attendance :: "world \<Rightarrow> int \<Rightarrow> date \<Rightarrow> exn + attendance_row option" where
  "get_attendance w student_id at_date =
     (if \<not> connect_db w then Inl AttributeError
      else Inr (select_attendance student_id at_date w))"

definition list_attendance_by_student :: "world \<Rightarrow> int \<Rightarrow> exn + attendance_row list" where
  "list_attendance_by_student w student_id =
     (if \<not> connect_db w then Inl AttributeError
      else Inr (select_attendance_by_student student_id w))"

definition list_all_attendance :: "world \<Rightarrow> exn + (student_row \<times> attendance_row) list" where
  "list_all_attendance w =
     (if \<not> connect_db w then Inl AttributeError else Inr (select_joined w))"

section \<open>The HTTP handlers of \<^verbatim>\<open>attendance_api.py\<close>\<close>

text \<open>
  A handler takes the store and the request (the outcome of \<^verbatim>\<open>request.get_json()\<close>, the
  URL parameters) and returns the response, a status code with a body, and the store. The handlers carry
  the prefix \<open>api_\<close>, since several share their name with the repository method they
  call. Where the source renders an exception with \<^verbatim>\<open>str(e)\<close> the body holds the exception.
  The test \<^verbatim>\<open>if not result\<close> of \<^verbatim>\<open>mark_attendance\<close> has no branch here: the repository
  method returns a pair or raises.
\<close>

datatype body =
    Error_text string
  | Error_exn exn
  | Invalid_data_format exn
  | Message string
  | Student_json int string string
  | Student_array "(int \<times> string \<times> string) list"
  | Attendance_json int string string
  | Attendance_array "(string \<times> string) list"
  | Joined_array "(int \<times> string \<times> string \<times> string \<times> string) list"

type_synonym response = "nat \<times> body"

text \<open>\<^verbatim>\<open>data[k]\<close> and \<^verbatim>\<open>data.get(k)\<close> on a dict.\<close>

definition dict_item :: "pydict \<Rightarrow> string \<Rightarrow> exn + pyval" where
  "dict_item kvs k = (case map_of kvs k of None \<Rightarrow> Inl KeyError | Some v \<Rightarrow> Inr v)"

definition dict_get :: "pydict \<Rightarrow> string \<Rightarrow> pyval" where
  "dict_get kvs k = (case map_of kvs k of None \<Rightarrow> PyNone | Some v \<Rightarrow> v)"

text \<open>The first of the required fields that is not a key of the body.\<close>

definition missing_field :: "string list \<Rightarrow> pydict \<Rightarrow> string option" where
  "missing_field required_fields kvs = find (\<lambda>field. map_of kvs field = None) required_fields"

text \<open>Sequencing of steps that may raise.\<close>

definition and_then :: "exn + 'a \<Rightarrow> ('a \<Rightarrow> exn + 'b) \<Rightarrow> exn + 'b" where
  "and_then r f = (case r of Inl e \<Rightarrow> Inl e | Inr x \<Rightarrow> f x)"

definition student_json :: "student_row \<Rightarrow> body" where
  "student_json row = Student_json (st_id row) (st_name row) (st_class row)"

definition attendance_json :: "attendance_row \<Rightarrow> body" where
  "attendance_json row = Attendance_json (a_student_id row) (isoformat (a_date row)) (a_status row)"

subsection \<open>Student endpoints\<close>

definition api_list_students :: "world \<Rightarrow> response \<times> world" where
  "api_list_students w =
     (if \<not> system_set w then ((500, Error_exn (Exception Not_initialized)), w)
      else ((200, Student_array (map (\<lambda>r. (st_id r, st_name r, st_class r)) (list_students w))), w))"

definition create_student_fields :: "pydict \<Rightarrow> exn + int \<times> pyval \<times> pyval" where
  "create_student_fields kvs =
     and_then (dict_item kvs ''id'') (\<lambda>v.
     and_then (py_int v) (\<lambda>student_id.
     and_then (dict_item kvs ''name'') (\<lambda>nm.
     and_then (dict_item kvs ''class'') (\<lambda>cl. Inr (student_id, nm, cl)))))"

definition api_create_student :: "world \<Rightarrow> get_json \<Rightarrow> response \<times> world" where
  "api_create_student w req =
     (if \<not> system_set w then ((500, Error_exn (Exception Not_initialized)), w)
      else case req of
        Bad_request \<Rightarrow> ((500, Error_exn BadRequest), w)
      | Json None \<Rightarrow> ((400, Error_text ''No data provided''), w)
      | Json (Some kvs) \<Rightarrow>
          if kvs = [] then ((400, Error_text ''No data provided''), w)
          else case missing_field [''id'', ''name'', ''class''] kvs of
            Some field \<Rightarrow> ((400, Error_text (''Missing required field: '' @ field)), w)
          | None \<Rightarrow>
              (case create_student_fields kvs of
                 Inl e \<Rightarrow>
                   if e = ValueError then ((400, Error_text ''ID must be a valid integer''), w)
                   else ((500, Error_exn e), w)
               | Inr (student_id, nm, cl) \<Rightarrow>
                   (case add_student w (nm, cl) (Some student_id) of
                      (Inl e, w') \<Rightarrow> ((400, Error_exn e), w')
                    | (Inr sid, w') \<Rightarrow>
                        (case get_student w' sid of
                           None \<Rightarrow> ((400, Error_exn TypeError), w')
                         | Some row \<Rightarrow> ((201, student_json row), w')))))"

definition api_read_student :: "world \<Rightarrow> int \<Rightarrow> response \<times> world" where
  "api_read_student w sid =
     (if \<not> system_set w then ((500, Error_text ''Internal server error''), w)
      else case get_student w sid of
        None \<Rightarrow> ((404, Message ''Student not found''), w)
      | Some row \<Rightarrow> ((200, student_json row), w))"

definition api_update_student :: "world \<Rightarrow> int \<Rightarrow> get_json \<Rightarrow> response \<times> world" where
  "api_update_student w sid req =
     (case req of
        Bad_request \<Rightarrow> ((400, Error_exn BadRequest), w)
      | Json data \<Rightarrow>
          if \<not> system_set w then ((400, Error_exn AttributeError), w)
          else case get_student w sid of
            None \<Rightarrow> ((404, Message ''Student not found''), w)
          | Some existing \<Rightarrow>
              (case data of
                 None \<Rightarrow> ((400, Error_exn AttributeError), w)
               | Some kvs \<Rightarrow>
                   (case update_student w sid (dict_get kvs ''name'', dict_get kvs ''class'') of
                      (Inl e, w') \<Rightarrow> ((400, Error_exn e), w')
                    | (Inr u, w') \<Rightarrow>
                        (case get_student w' sid of
                           None \<Rightarrow> ((400, Error_exn TypeError), w')
                         | Some row \<Rightarrow> ((200, student_json row), w')))))"

definition api_delete_student :: "world \<Rightarrow> int \<Rightarrow> response \<times> world" where
  "api_delete_student w sid =
     (if \<not> system_set w then ((500, Error_exn AttributeError), w)
      else case get_student w sid of
        None \<Rightarrow> ((404, Message ''Student not found''), w)
      | Some existing \<Rightarrow>
          (case delete_student w sid of
             (Inl e, w') \<Rightarrow> ((500, Error_exn e), w')
           | (Inr u, w') \<Rightarrow> ((200, Message (''Student id='' @ str_int sid @ '' deleted'')), w')))"

subsection \<open>Attendance endpoints\<close>

definition api_list_all_attendance :: "world \<Rightarrow> response \<times> world" where
  "api_list_all_attendance w =
     (if \<not> system_set w then ((500, Error_exn (Exception Not_initialized)), w)
      else case list_all_attendance w of
        Inl e \<Rightarrow> ((500, Error_exn e), w)
      | Inr rows \<Rightarrow>
          ((200, Joined_array
                   (map (\<lambda>(s, a). (st_id s, st_name s, st_class s, isoformat (a_date a), a_status a))
                      rows)), w))"

definition mark_attendance_fields :: "pydict \<Rightarrow> exn + int \<times> date \<times> pyval" where
  "mark_attendance_fields kvs =
     and_then (dict_item kvs ''student_id'') (\<lambda>v.
     and_then (py_int v) (\<lambda>student_id.
     and_then (dict_item kvs ''date'') (\<lambda>dv.
     and_then (strptime_val dv) (\<lambda>at_date.
     and_then (dict_item kvs ''status'') (\<lambda>status. Inr (student_id, at_date, status))))))"

text \<open>
  The two \<^verbatim>\<open>except\<close> clauses of the inner \<^verbatim>\<open>try\<close> of \<^verbatim>\<open>mark_attendance\<close>: both answer 400.
\<close>

definition mark_except :: "exn \<Rightarrow> response" where
  "mark_except e = (if e = ValueError then (400, Invalid_data_format e) else (400, Error_exn e))"

definition api_mark_attendance :: "world \<Rightarrow> get_json \<Rightarrow> response \<times> world" where
  "api_mark_attendance w req =
     (if \<not> system_set w then ((500, Error_exn (Exception Not_initialized)), w)
      else case req of
        Bad_request \<Rightarrow> ((500, Error_exn BadRequest), w)
      | Json None \<Rightarrow> ((400, Error_text ''No data provided''), w)
      | Json (Some kvs) \<Rightarrow>
          if kvs = [] then ((400, Error_text ''No data provided''), w)
          else case missing_field [''student_id'', ''date'', ''status''] kvs of
            Some field \<Rightarrow> ((400, Error_text (''Missing required field: '' @ field)), w)
          | None \<Rightarrow>
              (case mark_attendance_fields kvs of
                 Inl e \<Rightarrow> (mark_except e, w)
               | Inr (student_id, at_date, status) \<Rightarrow>
                   if status \<notin> set [PyStr ''Present'', PyStr ''Absent'']
                   then ((400, Error_text ''Status must be either Present or Absent''), w)
                   else case get_student w student_id of
                     None \<Rightarrow>
                       ((404, Error_text (''Student with ID '' @ str_int student_id @ '' not found'')), w)
                   | Some student \<Rightarrow>
                       (case mark_attendance w student_id at_date status of
                          (Inl e, w') \<Rightarrow> (mark_except e, w')
                        | (Inr result, w') \<Rightarrow>
                            (case get_attendance w' student_id at_date of
                               Inl e \<Rightarrow> (mark_except e, w')
                             | Inr None \<Rightarrow> (mark_except TypeError, w')
                             | Inr (Some row) \<Rightarrow> ((201, attendance_json row), w')))))"

definition api_get_attendance :: "world \<Rightarrow> int \<Rightarrow> string \<Rightarrow> response \<times> world" where
  "api_get_attendance w student_id date_str =
     (case strptime_ymd date_str of
        None \<Rightarrow> ((400, Error_text ''Invalid date format. Use YYYY-MM-DD''), w)
      | Some at_date \<Rightarrow>
          if \<not> system_set w then ((500, Error_exn AttributeError), w)
          else case get_attendance w student_id at_date of
            Inl e \<Rightarrow> ((500, Error_exn e), w)
          | Inr None \<Rightarrow> ((404, Message ''Attendance record not found''), w)
          | Inr (Some row) \<Rightarrow> ((200, attendance_json row), w))"

definition api_list_attendance_for_student :: "world \<Rightarrow> int \<Rightarrow> response \<times> world" where
  "api_list_attendance_for_student w student_id =
     (if \<not> system_set w then ((500, Error_exn AttributeError), w)
      else case list_attendance_by_student w student_id of
        Inl e \<Rightarrow> ((500, Error_exn e), w)
      | Inr rows \<Rightarrow>
          ((200, Attendance_array (map (\<lambda>r. (isoformat (a_date r), a_status r)) rows)), w))"

definition api_update_attendance ::
    "world \<Rightarrow> int \<Rightarrow> string \<Rightarrow> get_json \<Rightarrow> response \<times> world" where
  "api_update_attendance w student_id date_str req =
     (case strptime_ymd date_str of
        None \<Rightarrow> ((400, Error_text ''Invalid date format. Use YYYY-MM-DD''), w)
      | Some at_date \<Rightarrow>
          (case req of
             Bad_request \<Rightarrow> ((400, Error_exn BadRequest), w)
           | Json data \<Rightarrow>
               if \<not> system_set w then ((400, Error_exn AttributeError), w)
               else case get_attendance w student_id at_date of
                 Inl e \<Rightarrow> ((400, Error_exn e), w)
               | Inr None \<Rightarrow> ((404, Message ''Record not found''), w)
               | Inr (Some existing) \<Rightarrow>
                   (case data of
                      None \<Rightarrow> ((400, Error_exn AttributeError), w)
                    | Some kvs \<Rightarrow>
                        (case update_attendance w student_id at_date (dict_get kvs ''status'') of
                           (Inl e, w') \<Rightarrow> ((400, Error_exn e), w')
                         | (Inr u, w') \<Rightarrow>
                             (case get_attendance w' student_id at_date of
                                Inl e \<Rightarrow> ((400, Error_exn e), w')
                              | Inr None \<Rightarrow> ((400, Error_exn TypeError), w')
                              | Inr (Some row) \<Rightarrow> ((200, attendance_json row), w'))))))"


section \<open>Stores that satisfy the schema, and the data of the worked scenarios\<close>

text \<open>
  A store satisfies the schema when the primary keys are unique, every column holds a
  value of its declared type, and every attendance row references a student row.
\<close>

definition schema_ok :: "world \<Rightarrow> bool" where
  "schema_ok w =
     (distinct (map st_id (students w)) \<and>
      (\<forall>r \<in> set (students w).
         int_col (st_id r) \<and> length (st_name r) \<le> 100 \<and> length (st_class r) \<le> 50) \<and>
      distinct (map (\<lambda>r. (a_student_id r, a_date r)) (attendance w)) \<and>
      (\<forall>r \<in> set (attendance w).
         a_student_id r \<in> st_id ` set (students w) \<and>
         a_status r \<in> set [''Present'', ''Absent'']))"

text \<open>The store with the single student \<^verbatim>\<open>{id: 1, name: "Ann", class: "5A"}\<close>.\<close>

definition w_ann :: world where
  "w_ann = \<lparr>system_set = True, reachable = True,
            students = [\<lparr>st_id = 1, st_name = ''Ann'', st_class = ''5A''\<rparr>], attendance = []\<rparr>"

definition jan10 :: date where
  "jan10 = \<lparr>d_year = 2024, d_month = 1, d_day = 10\<rparr>"

text \<open>The same store after student 1 was marked present on 2024-01-10.\<close>

definition w_ann_marked :: world where
  "w_ann_marked = w_ann\<lparr>attendance := [\<lparr>a_student_id = 1, a_date = jan10, a_status = ''Present''\<rparr>]\<rparr>"

text \<open>The empty store.\<close>

definition w_empty :: world where
  "w_empty = \<lparr>system_set = True, reachable = True, students = [], attendance = []\<rparr>"

section \<open>The date format in words\<close>

text \<open>
  The format as the specification writes it, YYYY-MM-DD: four digits, a hyphen, two
  digits, a hyphen, two digits.
\<close>

definition spec_yyyy_mm_dd :: "string \<Rightarrow> bool" where
  "spec_yyyy_mm_dd s =
     (length s = 10 \<and> list_all is_digit (take 4 s) \<and> s ! 4 = CHR ''-'' \<and>
      list_all is_digit (take 2 (drop 5 s)) \<and> s ! 7 = CHR ''-'' \<and>
      list_all is_digit (drop 8 s))"

text \<open>
  The wider shape: four digits, a hyphen, a month of one or two digits, a hyphen, and a
  day of one or two digits, where a space may stand in place of the first digit of a
  day of two characters.
\<close>

fun month_day_shape :: "string \<Rightarrow> bool" where
  "month_day_shape [m1, h2, d1] = (is_digit m1 \<and> h2 = CHR ''-'' \<and> is_digit d1)"
| "month_day_shape [c1, c2, c3, c4] =
     ((is_digit c1 \<and> c2 = CHR ''-'' \<and> (is_digit c3 \<or> c3 = CHR '' '') \<and> is_digit c4) \<or>
      (is_digit c1 \<and> is_digit c2 \<and> c3 = CHR ''-'' \<and> is_digit c4))"
| "month_day_shape [m1, m2, h2, d1, d2] =
     (is_digit m1 \<and> is_digit m2 \<and> h2 = CHR ''-'' \<and> (is_digit d1 \<or> d1 = CHR '' '') \<and> is_digit d2)"
| "month_day_shape s = False"

definition loose_ymd :: "string \<Rightarrow> bool" where
  "loose_ymd s =
     (case s of
        y1 # y2 # y3 # y4 # h1 # r \<Rightarrow>
          is_digit y1 \<and> is_digit y2 \<and> is_digit y3 \<and> is_digit y4 \<and> h1 = CHR ''-'' \<and>
          month_day_shape r
      | _ \<Rightarrow> False)"

section \<open>Properties\<close>

subsection \<open>Lookups\<close>

lemma find_append_new:
  "find P xs = None \<Longrightarrow> find P (xs @ ys) = find P ys"
  by (induction xs) (auto split: if_splits)

lemma select_student_None_iff:
  "select_student sid w = None \<longleftrightarrow> sid \<notin> st_id ` set (students w)"
  by (auto simp: select_student_def find_None_iff)

lemma select_attendance_None_iff:
  "select_attendance sid d w = None \<longleftrightarrow>
     (\<forall>r \<in> set (attendance w). \<not> (a_student_id r = sid \<and> a_date r = d))"
  by (auto simp: select_attendance_def find_None_iff)

lemma decodable_small: "\<bar>i\<bar> < 10 \<Longrightarrow> decodable (PyInt i)"
proof -
  assume small: "\<bar>i\<bar> < 10"
  have "(10::int) ^ 1 \<le> 10 ^ 4300"
    by (rule power_increasing) simp_all
  then have "(10::int) \<le> 10 ^ 4300"
    by (simp only: power_one_right)
  with small have "\<bar>i\<bar> < 10 ^ 4300"
    by (rule less_le_trans)
  then show ?thesis
    by (simp only: decodable_def pyval.case)
qed

lemma filter_find_None:
  "find P xs = None \<Longrightarrow> filter P xs = []"
  by (induction xs) (auto split: if_splits)

subsection \<open>Marking attendance\<close>

text \<open>
  C1. In a store that can be reached and satisfies the schema, where the student exists
  and no attendance row exists for the pair of student and date, marking with a valid
  status succeeds and appends the row; a second marking of the same pair, with whatever
  status, raises "Attendance already marked" and leaves the store as the first call left
  it; the only row stored for the pair carries the status of the first call.
\<close>

theorem mark_twice:
  assumes up: "reachable w"
    and ok: "schema_ok w"
    and ex: "sid \<in> st_id ` set (students w)"
    and fresh: "select_attendance sid d w = None"
    and st: "s1 \<in> set [''Present'', ''Absent'']"
  shows "let row = \<lparr>a_student_id = sid, a_date = d, a_status = s1\<rparr>;
             w1 = w\<lparr>attendance := attendance w @ [row]\<rparr>
         in mark_attendance w sid d (PyStr s1) = (Inr (sid, d), w1) \<and>
            mark_attendance w1 sid d s2 = (Inl (Exception (Already_marked sid d)), w1) \<and>
            get_attendance w1 sid d = Inr (Some row) \<and>
            filter (\<lambda>r. a_student_id r = sid \<and> a_date r = d) (attendance w1) = [row]"
proof -
  let ?row = "\<lparr>a_student_id = sid, a_date = d, a_status = s1\<rparr>"
  let ?w1 = "w\<lparr>attendance := attendance w @ [?row]\<rparr>"
  from ok ex have rng: "int_col sid"
    by (auto simp: schema_ok_def)
  from ex have stu: "select_student sid w \<noteq> None"
    by (simp add: select_student_None_iff)
  have ins: "insert_attendance sid d (PyStr s1) w = Inr ?w1"
    using rng stu fresh st by (auto simp: insert_attendance_def)
  have first: "mark_attendance w sid d (PyStr s1) = (Inr (sid, d), ?w1)"
    using up stu fresh ins by (simp add: mark_attendance_def connect_db_def)
  have fnd: "find (\<lambda>r. a_student_id r = sid \<and> a_date r = d) (attendance w) = None"
    using fresh by (simp add: select_attendance_def)
  have sel1: "select_attendance sid d ?w1 = Some ?row"
    by (simp add: select_attendance_def find_append_new [OF fnd])
  have stu1: "select_student sid ?w1 \<noteq> None"
    using stu by (simp add: select_student_def)
  have second: "mark_attendance ?w1 sid d s2 = (Inl (Exception (Already_marked sid d)), ?w1)"
    using up stu1 sel1 by (simp add: mark_attendance_def connect_db_def)
  have got: "get_attendance ?w1 sid d = Inr (Some ?row)"
    using up sel1 by (simp add: get_attendance_def connect_db_def)
  have only: "filter (\<lambda>r. a_student_id r = sid \<and> a_date r = d) (attendance ?w1) = [?row]"
    by (simp add: filter_find_None [OF fnd])
  show ?thesis
    unfolding Let_def using first second got only by (intro conjI)
qed

theorem mark_twice_witness:
  "reachable w_ann \<and> schema_ok w_ann \<and> 1 \<in> st_id ` set (students w_ann) \<and>
   select_attendance 1 jan10 w_ann = None \<and>
   mark_attendance w_ann 1 jan10 (PyStr ''Present'')
     = (Inr (1, jan10),
        w_ann\<lparr>attendance := [\<lparr>a_student_id = 1, a_date = jan10, a_status = ''Present''\<rparr>]\<rparr>) \<and>
   mark_attendance
       (w_ann\<lparr>attendance := [\<lparr>a_student_id = 1, a_date = jan10, a_status = ''Present''\<rparr>]\<rparr>)
       1 jan10 (PyStr ''Absent'')
     = (Inl (Exception (Already_marked 1 jan10)),
        w_ann\<lparr>attendance := [\<lparr>a_student_id = 1, a_date = jan10, a_status = ''Present''\<rparr>]\<rparr>)"
proof -
  have h: "reachable w_ann" "schema_ok w_ann" "1 \<in> st_id ` set (students w_ann)"
    "select_attendance 1 jan10 w_ann = None" "''Present'' \<in> set [''Present'', ''Absent'']"
    by (simp_all add: w_ann_def schema_ok_def int_col_def select_attendance_def)
  show ?thesis
    using h mark_twice [OF h, of "PyStr ''Absent''"]
    by (simp add: Let_def w_ann_def)
qed

subsection \<open>Deleting a student\<close>

lemma select_by_student_deleted:
  "select_attendance_by_student sid (delete_attendance_rows_of sid w) = []"
  by (simp add: select_attendance_by_student_def delete_attendance_rows_of_def)

lemma find_filter_excluded:
  "(\<And>x. P x \<Longrightarrow> \<not> Q x) \<Longrightarrow> find P (filter Q xs) = None"
  by (auto simp: find_None_iff)

lemma strptime_jan10: "strptime_ymd ''2024-01-10'' = Some jan10"
  by (simp add: strptime_ymd_def is_digit_def is_digit19_def digit_val_def make_date_def
      days_in_month_def jan10_def)

text \<open>
  C2. For a student that exists in a reachable store, \<^verbatim>\<open>delete_student\<close> first removes
  every attendance row of that student and then the student row: the student row is
  deleted from the store the attendance rows have already left, where the foreign key
  does not object (it would refuse the deletion while attendance rows remain).
  Afterwards the student is gone, the student's attendance list is empty, and the lookup
  of any (student, date) pair finds nothing, which the HTTP handler reports as 404.
\<close>

theorem delete_student_cascades:
  assumes up: "reachable w"
    and ex: "sid \<in> st_id ` set (students w)"
  shows "let w1 = delete_attendance_rows_of sid w;
             w2 = w\<lparr>students := filter (\<lambda>r. st_id r \<noteq> sid) (students w),
                    attendance := filter (\<lambda>r. a_student_id r \<noteq> sid) (attendance w)\<rparr>
         in delete_student_row sid w1 = Inr w2 \<and>
            delete_student w sid = (Inr (), w2) \<and>
            (select_attendance_by_student sid w \<noteq> [] \<longrightarrow>
               delete_student_row sid w = Inl Foreign_key_fails) \<and>
            get_student w2 sid = None \<and>
            list_attendance_by_student w2 sid = Inr [] \<and>
            (\<forall>d. get_attendance w2 sid d = Inr None) \<and>
            (system_set w \<longrightarrow>
               fst (api_delete_student w sid) = (200, Message (''Student id='' @ str_int sid @ '' deleted'')) \<and>
               snd (api_delete_student w sid) = w2 \<and>
               fst (api_list_attendance_for_student w2 sid) = (200, Attendance_array []) \<and>
               (\<forall>ds d. strptime_ymd ds = Some d \<longrightarrow>
                  fst (api_get_attendance w2 sid ds) = (404, Message ''Attendance record not found'')))"
proof -
  let ?w1 = "delete_attendance_rows_of sid w"
  let ?w2 = "w\<lparr>students := filter (\<lambda>r. st_id r \<noteq> sid) (students w),
                attendance := filter (\<lambda>r. a_student_id r \<noteq> sid) (attendance w)\<rparr>"
  from ex have stu: "select_student sid w \<noteq> None"
    by (simp add: select_student_None_iff)
  have row: "delete_student_row sid ?w1 = Inr ?w2"
    by (simp add: delete_student_row_def select_by_student_deleted)
       (simp add: delete_attendance_rows_of_def)
  have del: "delete_student w sid = (Inr (), ?w2)"
    using up row by (simp add: delete_student_def connect_db_def)
  have fk: "select_attendance_by_student sid w \<noteq> [] \<longrightarrow>
              delete_student_row sid w = Inl Foreign_key_fails"
    using stu by (simp add: delete_student_row_def)
  have gone: "get_student ?w2 sid = None"
    using up by (simp add: get_student_def connect_db_def select_student_def find_None_iff)
  have lst: "list_attendance_by_student ?w2 sid = Inr []"
    using up by (simp add: list_attendance_by_student_def connect_db_def
        select_attendance_by_student_def)
  have get: "get_attendance ?w2 sid d = Inr None" for d
    using up by (simp add: get_attendance_def connect_db_def select_attendance_def
        find_None_iff)
  have api: "system_set w \<longrightarrow>
      fst (api_delete_student w sid) = (200, Message (''Student id='' @ str_int sid @ '' deleted'')) \<and>
      snd (api_delete_student w sid) = ?w2 \<and>
      fst (api_list_attendance_for_student ?w2 sid) = (200, Attendance_array []) \<and>
      (\<forall>ds d. strptime_ymd ds = Some d \<longrightarrow>
          fst (api_get_attendance ?w2 sid ds) = (404, Message ''Attendance record not found''))"
  proof (intro impI conjI allI)
    assume sys: "system_set w"
    from stu up have "get_student w sid \<noteq> None"
      by (simp add: get_student_def connect_db_def)
    then obtain r where r: "get_student w sid = Some r"
      by auto
    show "fst (api_delete_student w sid) = (200, Message (''Student id='' @ str_int sid @ '' deleted''))"
      using sys r del by (simp add: api_delete_student_def)
    show "snd (api_delete_student w sid) = ?w2"
      using sys r del by (simp add: api_delete_student_def)
    show "fst (api_list_attendance_for_student ?w2 sid) = (200, Attendance_array [])"
      using sys lst by (simp add: api_list_attendance_for_student_def)
    fix ds d
    assume "strptime_ymd ds = Some d"
    then show "fst (api_get_attendance ?w2 sid ds) = (404, Message ''Attendance record not found'')"
      using sys get [of d] by (simp add: api_get_attendance_def)
  qed
  show ?thesis
    unfolding Let_def using row del fk gone lst get api by (intro conjI allI) auto
qed

theorem delete_student_cascades_witness:
  "reachable w_ann_marked \<and> 1 \<in> st_id ` set (students w_ann_marked) \<and>
   system_set w_ann_marked \<and>
   get_attendance w_ann_marked 1 jan10
     = Inr (Some \<lparr>a_student_id = 1, a_date = jan10, a_status = ''Present''\<rparr>) \<and>
   delete_student w_ann_marked 1 = (Inr (), w_ann\<lparr>students := []\<rparr>) \<and>
   delete_student_row 1 w_ann_marked = Inl Foreign_key_fails \<and>
   list_attendance_by_student (w_ann\<lparr>students := []\<rparr>) 1 = Inr [] \<and>
   get_attendance (w_ann\<lparr>students := []\<rparr>) 1 jan10 = Inr None \<and>
   fst (api_get_attendance (w_ann\<lparr>students := []\<rparr>) 1 ''2024-01-10'')
     = (404, Message ''Attendance record not found'')"
proof -
  have h: "reachable w_ann_marked" "1 \<in> st_id ` set (students w_ann_marked)"
    by (simp_all add: w_ann_marked_def w_ann_def)
  have s: "system_set w_ann_marked"
    by (simp add: w_ann_marked_def w_ann_def)
  have e: "w_ann_marked\<lparr>students := filter (\<lambda>r. st_id r \<noteq> 1) (students w_ann_marked),
                attendance := filter (\<lambda>r. a_student_id r \<noteq> 1) (attendance w_ann_marked)\<rparr>
           = w_ann\<lparr>students := []\<rparr>"
    by (simp add: w_ann_marked_def w_ann_def)
  have g: "get_attendance w_ann_marked 1 jan10
     = Inr (Some \<lparr>a_student_id = 1, a_date = jan10, a_status = ''Present''\<rparr>)"
    by (simp add: get_attendance_def connect_db_def select_attendance_def w_ann_marked_def w_ann_def)
  have n: "select_attendance_by_student 1 w_ann_marked \<noteq> []"
    by (simp add: select_attendance_by_student_def w_ann_marked_def w_ann_def)
  show ?thesis
    using h s g n strptime_jan10 delete_student_cascades [OF h]
    unfolding Let_def e by auto
qed


subsection \<open>Marking attendance for a student that does not exist\<close>

lemma missing_field_None:
  "(\<forall>f \<in> set fs. map_of kvs f \<noteq> None) \<Longrightarrow> missing_field fs kvs = None"
  by (simp add: missing_field_def find_None_iff)

lemma mark_attendance_fields_ok:
  assumes "map_of kvs ''student_id'' = Some v" "py_int v = Inr sid"
    and "map_of kvs ''date'' = Some (PyStr ds)" "strptime_ymd ds = Some d"
    and "map_of kvs ''status'' = Some st"
  shows "mark_attendance_fields kvs = Inr (sid, d, st)"
  using assms by (simp add: mark_attendance_fields_def and_then_def dict_item_def)

text \<open>
  C3. When the student id references no student row of a reachable store, the
  repository's \<^verbatim>\<open>mark_attendance\<close> raises "Student with ID ... not found" for every date
  and every status, and the store is unchanged: no row is inserted. The HTTP handler
  answers a well-formed request for such a student with 404 and leaves the store
  unchanged; well-formed means a decoded body whose \<^verbatim>\<open>student_id\<close> converts with \<^verbatim>\<open>int\<close>,
  whose date the format accepts and whose status is \<^verbatim>\<open>Present\<close> or \<^verbatim>\<open>Absent\<close>.
\<close>

theorem mark_unknown_student:
  assumes up: "reachable w"
    and absent: "sid \<notin> st_id ` set (students w)"
  shows "mark_attendance w sid d st = (Inl (Exception (Not_found sid)), w) \<and>
         (system_set w \<and> map_of kvs ''student_id'' = Some v \<and> decodable v \<and>
          py_int v = Inr sid \<and>
          map_of kvs ''date'' = Some (PyStr ds) \<and> strptime_ymd ds = Some d \<and>
          map_of kvs ''status'' = Some st \<and> st \<in> set [PyStr ''Present'', PyStr ''Absent'']
          \<longrightarrow> api_mark_attendance w (Json (Some kvs))
                = ((404, Error_text (''Student with ID '' @ str_int sid @ '' not found'')), w))"
proof -
  from absent have stu: "select_student sid w = None"
    by (simp add: select_student_None_iff)
  have repo: "mark_attendance w sid d st = (Inl (Exception (Not_found sid)), w)"
    using up stu by (simp add: mark_attendance_def connect_db_def)
  have api: "api_mark_attendance w (Json (Some kvs))
                = ((404, Error_text (''Student with ID '' @ str_int sid @ '' not found'')), w)"
    if sys: "system_set w" and f1: "map_of kvs ''student_id'' = Some v" and f2: "py_int v = Inr sid"
      and f3: "map_of kvs ''date'' = Some (PyStr ds)" and f4: "strptime_ymd ds = Some d"
      and f5: "map_of kvs ''status'' = Some st"
      and f6: "st \<in> set [PyStr ''Present'', PyStr ''Absent'']"
  proof -
    from f1 have ne: "kvs \<noteq> []" by auto
    have mf: "missing_field [''student_id'', ''date'', ''status''] kvs = None"
      using f1 f3 f5 by (simp add: missing_field_None)
    have flds: "mark_attendance_fields kvs = Inr (sid, d, st)"
      using f1 f2 f3 f4 f5 by (rule mark_attendance_fields_ok)
    have gs: "get_student w sid = None"
      using stu by (simp add: get_student_def)
    show ?thesis
      using sys ne mf flds f6 gs by (simp add: api_mark_attendance_def)
  qed
  show ?thesis
    using repo api by blast
qed

theorem mark_unknown_student_witness:
  "reachable w_ann \<and> 2 \<notin> st_id ` set (students w_ann) \<and> system_set w_ann \<and>
   mark_attendance w_ann 2 jan10 (PyStr ''Present'') = (Inl (Exception (Not_found 2)), w_ann) \<and>
   fst (fst (api_mark_attendance w_ann
      (Json (Some [(''student_id'', PyInt 2), (''date'', PyStr ''2024-01-10''), (''status'', PyStr ''Present'')]))))
     = 404 \<and>
   snd (api_mark_attendance w_ann
      (Json (Some [(''student_id'', PyInt 2), (''date'', PyStr ''2024-01-10''), (''status'', PyStr ''Present'')])))
     = w_ann"
proof -
  have h: "reachable w_ann" "2 \<notin> st_id ` set (students w_ann)"
    by (simp_all add: w_ann_def)
  have s: "system_set w_ann"
    by (simp add: w_ann_def)
  have dc: "decodable (PyInt 2)"
    by (rule decodable_small) simp
  show ?thesis
    using h s dc strptime_jan10
      mark_unknown_student [OF h, of jan10 "PyStr ''Present''"
        "[(''student_id'', PyInt 2), (''date'', PyStr ''2024-01-10''), (''status'', PyStr ''Present'')]"
        "PyInt 2" "''2024-01-10''"]
    by simp
qed


subsection \<open>Creating a student\<close>

lemma create_student_fields_ok:
  assumes "map_of kvs ''id'' = Some v" "py_int v = Inr sid"
    and "map_of kvs ''name'' = Some nm" "map_of kvs ''class'' = Some cl"
  shows "create_student_fields kvs = Inr (sid, nm, cl)"
  using assms by (simp add: create_student_fields_def and_then_def dict_item_def)

lemma add_student_fresh:
  assumes up: "reachable w"
    and fresh: "sid \<notin> st_id ` set (students w)"
    and rng: "int_col sid"
    and len: "length nm \<le> 100" "length cl \<le> 50"
  shows "add_student w (PyStr nm, PyStr cl) (Some sid)
           = (Inr sid, w\<lparr>students := students w @ [\<lparr>st_id = sid, st_name = nm, st_class = cl\<rparr>]\<rparr>)"
proof -
  from fresh have stu: "select_student sid w = None"
    by (simp add: select_student_None_iff)
  then show ?thesis
    using up rng len by (simp add: add_student_def connect_db_def insert_student_def)
qed

lemma get_student_appended:
  assumes up: "reachable w"
    and fresh: "sid \<notin> st_id ` set (students w)"
  shows "get_student (w\<lparr>students := students w @ [\<lparr>st_id = sid, st_name = nm, st_class = cl\<rparr>]\<rparr>) sid
           = Some \<lparr>st_id = sid, st_name = nm, st_class = cl\<rparr>"
proof -
  from fresh have "find (\<lambda>r. st_id r = sid) (students w) = None"
    by (auto simp: find_None_iff)
  then show ?thesis
    using up by (simp add: get_student_def connect_db_def select_student_def find_append_new)
qed

text \<open>
  C4. For an id that is not in the table and lies in the range of the \<^verbatim>\<open>INT\<close> column, a
  name of at most 100 characters and a class of at most 50, \<^verbatim>\<open>add_student\<close> followed by
  \<^verbatim>\<open>get_student\<close> returns the row with the id, name and class that were supplied; over
  HTTP, the creating request answers 201 with that triple and the reading request 200
  with the same triple.
\<close>

theorem create_then_get:
  assumes up: "reachable w"
    and fresh: "sid \<notin> st_id ` set (students w)"
    and rng: "int_col sid"
    and len: "length nm \<le> 100" "length cl \<le> 50"
  shows "let row = \<lparr>st_id = sid, st_name = nm, st_class = cl\<rparr>;
             w1 = w\<lparr>students := students w @ [row]\<rparr>
         in add_student w (PyStr nm, PyStr cl) (Some sid) = (Inr sid, w1) \<and>
            get_student w1 sid = Some row \<and>
            (system_set w \<and> map_of kvs ''id'' = Some v \<and> py_int v = Inr sid \<and>
             map_of kvs ''name'' = Some (PyStr nm) \<and> map_of kvs ''class'' = Some (PyStr cl)
             \<longrightarrow> api_create_student w (Json (Some kvs)) = ((201, Student_json sid nm cl), w1) \<and>
                 api_read_student w1 sid = ((200, Student_json sid nm cl), w1))"
proof -
  let ?row = "\<lparr>st_id = sid, st_name = nm, st_class = cl\<rparr>"
  let ?w1 = "w\<lparr>students := students w @ [?row]\<rparr>"
  have add: "add_student w (PyStr nm, PyStr cl) (Some sid) = (Inr sid, ?w1)"
    using up fresh rng len by (rule add_student_fresh)
  have get: "get_student ?w1 sid = Some ?row"
    using up fresh by (rule get_student_appended)
  have api: "api_create_student w (Json (Some kvs)) = ((201, Student_json sid nm cl), ?w1) \<and>
             api_read_student ?w1 sid = ((200, Student_json sid nm cl), ?w1)"
    if sys: "system_set w" and f1: "map_of kvs ''id'' = Some v" and f2: "py_int v = Inr sid"
      and f3: "map_of kvs ''name'' = Some (PyStr nm)" and f4: "map_of kvs ''class'' = Some (PyStr cl)"
  proof -
    from f1 have ne: "kvs \<noteq> []" by auto
    have mf: "missing_field [''id'', ''name'', ''class''] kvs = None"
      using f1 f3 f4 by (simp add: missing_field_None)
    have flds: "create_student_fields kvs = Inr (sid, PyStr nm, PyStr cl)"
      using f1 f2 f3 f4 by (rule create_student_fields_ok)
    have c: "api_create_student w (Json (Some kvs)) = ((201, Student_json sid nm cl), ?w1)"
      using sys ne mf flds add get by (simp add: api_create_student_def student_json_def)
    have r: "api_read_student ?w1 sid = ((200, Student_json sid nm cl), ?w1)"
      using sys get by (simp add: api_read_student_def student_json_def)
    from c r show ?thesis ..
  qed
  show ?thesis
    unfolding Let_def using add get api by blast
qed

theorem create_then_get_witness:
  "reachable w_ann \<and> 2 \<notin> st_id ` set (students w_ann) \<and> int_col 2 \<and>
   length ''Bob'' \<le> 100 \<and> length ''5B'' \<le> 50 \<and>
   add_student w_ann (PyStr ''Bob'', PyStr ''5B'') (Some 2)
     = (Inr 2, w_ann\<lparr>students := students w_ann @ [\<lparr>st_id = 2, st_name = ''Bob'', st_class = ''5B''\<rparr>]\<rparr>) \<and>
   get_student (w_ann\<lparr>students := students w_ann @ [\<lparr>st_id = 2, st_name = ''Bob'', st_class = ''5B''\<rparr>]\<rparr>) 2
     = Some \<lparr>st_id = 2, st_name = ''Bob'', st_class = ''5B''\<rparr> \<and>
   fst (api_create_student w_ann
          (Json (Some [(''id'', PyInt 2), (''name'', PyStr ''Bob''), (''class'', PyStr ''5B'')])))
     = (201, Student_json 2 ''Bob'' ''5B'')"
proof -
  have h: "reachable w_ann" "2 \<notin> st_id ` set (students w_ann)" "int_col 2"
    "length ''Bob'' \<le> 100" "length ''5B'' \<le> 50"
    by (simp_all add: w_ann_def int_col_def)
  have s: "system_set w_ann"
    by (simp add: w_ann_def)
  show ?thesis
    using h s
      create_then_get [OF h,
        of "[(''id'', PyInt 2), (''name'', PyStr ''Bob''), (''class'', PyStr ''5B'')]" "PyInt 2"]
    by (simp add: Let_def)
qed

text \<open>
  C5. For an id that is already in the table, and every name and class, \<^verbatim>\<open>add_student\<close>
  raises "Student with ID ... already exists" and the store, with the existing row, is
  unchanged; the HTTP handler answers 400 with that error.
\<close>

theorem create_duplicate_id:
  assumes up: "reachable w"
    and ex: "sid \<in> st_id ` set (students w)"
  shows "add_student w (nm, cl) (Some sid) = (Inl (Exception (Already_exists sid)), w) \<and>
         (system_set w \<and> map_of kvs ''id'' = Some v \<and> decodable v \<and> py_int v = Inr sid \<and>
          map_of kvs ''name'' = Some nm \<and> map_of kvs ''class'' = Some cl
          \<longrightarrow> api_create_student w (Json (Some kvs))
                = ((400, Error_exn (Exception (Already_exists sid))), w))"
proof -
  from ex have stu: "select_student sid w \<noteq> None"
    by (simp add: select_student_None_iff)
  have repo: "add_student w (nm, cl) (Some sid) = (Inl (Exception (Already_exists sid)), w)"
    using up stu by (simp add: add_student_def connect_db_def)
  have api: "api_create_student w (Json (Some kvs))
                = ((400, Error_exn (Exception (Already_exists sid))), w)"
    if sys: "system_set w" and f1: "map_of kvs ''id'' = Some v" and f2: "py_int v = Inr sid"
      and f3: "map_of kvs ''name'' = Some nm" and f4: "map_of kvs ''class'' = Some cl"
  proof -
    from f1 have ne: "kvs \<noteq> []" by auto
    have mf: "missing_field [''id'', ''name'', ''class''] kvs = None"
      using f1 f3 f4 by (simp add: missing_field_None)
    have flds: "create_student_fields kvs = Inr (sid, nm, cl)"
      using f1 f2 f3 f4 by (rule create_student_fields_ok)
    show ?thesis
      using sys ne mf flds repo by (simp add: api_create_student_def)
  qed
  show ?thesis
    using repo api by blast
qed

theorem create_duplicate_id_witness:
  "reachable w_ann \<and> 1 \<in> st_id ` set (students w_ann) \<and> system_set w_ann \<and>
   add_student w_ann (PyStr ''Zoe'', PyStr ''9Z'') (Some 1)
     = (Inl (Exception (Already_exists 1)), w_ann) \<and>
   api_create_student w_ann (Json (Some [(''id'', PyInt 1), (''name'', PyStr ''Zoe''), (''class'', PyStr ''9Z'')]))
     = ((400, Error_exn (Exception (Already_exists 1))), w_ann)"
proof -
  have h: "reachable w_ann" "1 \<in> st_id ` set (students w_ann)"
    by (simp_all add: w_ann_def)
  have s: "system_set w_ann"
    by (simp add: w_ann_def)
  have dc: "decodable (PyInt 1)"
    by (rule decodable_small) simp
  show ?thesis
    using h s dc
      create_duplicate_id [OF h, of "PyStr ''Zoe''" "PyStr ''9Z''"
        "[(''id'', PyInt 1), (''name'', PyStr ''Zoe''), (''class'', PyStr ''9Z'')]" "PyInt 1"]
    by simp
qed

subsection \<open>Reads when the store cannot be reached\<close>

text \<open>
  C10. When the connection cannot be established, \<^verbatim>\<open>get_student\<close> returns \<open>None\<close> and
  \<^verbatim>\<open>list_students\<close> returns the empty list, the answers of a reachable store with an
  empty table; the HTTP handlers report 404 and 200 with an empty array.
\<close>

theorem unreachable_store_reads:
  assumes down: "\<not> reachable w"
  shows "get_student w sid = None \<and> list_students w = [] \<and>
         get_student w sid = get_student (w\<lparr>reachable := True, students := []\<rparr>) sid \<and>
         list_students w = list_students (w\<lparr>reachable := True, students := []\<rparr>) \<and>
         (system_set w \<longrightarrow>
            api_read_student w sid = ((404, Message ''Student not found''), w) \<and>
            api_list_students w = ((200, Student_array []), w))"
  using down
  by (simp add: get_student_def list_students_def connect_db_def api_read_student_def
      api_list_students_def select_student_def)

theorem unreachable_store_reads_witness:
  "\<not> reachable (w_ann\<lparr>reachable := False\<rparr>) \<and>
   students (w_ann\<lparr>reachable := False\<rparr>) \<noteq> [] \<and>
   get_student (w_ann\<lparr>reachable := False\<rparr>) 1 = None \<and>
   list_students (w_ann\<lparr>reachable := False\<rparr>) = [] \<and>
   fst (api_read_student (w_ann\<lparr>reachable := False\<rparr>) 1) = (404, Message ''Student not found'') \<and>
   fst (api_list_students (w_ann\<lparr>reachable := False\<rparr>)) = (200, Student_array [])"
proof -
  have h: "\<not> reachable (w_ann\<lparr>reachable := False\<rparr>)"
    by simp
  have s: "system_set (w_ann\<lparr>reachable := False\<rparr>)" "students (w_ann\<lparr>reachable := False\<rparr>) \<noteq> []"
    by (simp_all add: w_ann_def)
  show ?thesis
    using h s unreachable_store_reads [OF h, of 1] by simp
qed


subsection \<open>Creating a student with an empty name or class\<close>

text \<open>
  C6, as stated, does not hold: neither the handler nor \<^verbatim>\<open>add_student\<close> looks at the
  length of the name or the class. A request with the empty string as name is answered
  201, and the row with the empty name is in the table.
\<close>

theorem create_empty_name_counterexample:
  "api_create_student w_empty
     (Json (Some [(''id'', PyInt 1), (''name'', PyStr ''''), (''class'', PyStr ''5A'')]))
   = ((201, Student_json 1 '''' ''5A''),
      w_empty\<lparr>students := [\<lparr>st_id = 1, st_name = '''', st_class = ''5A''\<rparr>]\<rparr>)"
  by (simp add: api_create_student_def w_empty_def missing_field_def create_student_fields_def
      and_then_def dict_item_def add_student_def connect_db_def select_student_def
      insert_student_def int_col_def get_student_def student_json_def)

text \<open>
  C6, amended. What the create handler checks is the presence of the fields: a request
  whose decoded body is \<^verbatim>\<open>null\<close>, the empty object, or an object without one of \<^verbatim>\<open>id\<close>,
  \<^verbatim>\<open>name\<close>, \<^verbatim>\<open>class\<close> is answered 400 and the store is unchanged. The empty string is
  accepted as a name or a class: with an id that is new and in the range of the column,
  the row is inserted with the empty field and the answer is 201.
\<close>

theorem create_requires_fields_only:
  assumes sys: "system_set w"
  shows "((req = Json None \<or> req = Json (Some []) \<or>
           (\<exists>kvs. req = Json (Some kvs) \<and> missing_field [''id'', ''name'', ''class''] kvs \<noteq> None))
          \<longrightarrow> fst (fst (api_create_student w req)) = 400 \<and> snd (api_create_student w req) = w) \<and>
         (reachable w \<and> req = Json (Some kvs) \<and> map_of kvs ''id'' = Some v \<and> py_int v = Inr sid \<and>
          sid \<notin> st_id ` set (students w) \<and> int_col sid \<and>
          map_of kvs ''name'' = Some (PyStr nm) \<and> map_of kvs ''class'' = Some (PyStr cl) \<and>
          (nm = '''' \<or> cl = '''') \<and> length nm \<le> 100 \<and> length cl \<le> 50
          \<longrightarrow> api_create_student w req
                = ((201, Student_json sid nm cl),
                   w\<lparr>students := students w @ [\<lparr>st_id = sid, st_name = nm, st_class = cl\<rparr>]\<rparr>))"
proof (rule conjI; rule impI)
  assume "req = Json None \<or> req = Json (Some []) \<or>
           (\<exists>kvs. req = Json (Some kvs) \<and> missing_field [''id'', ''name'', ''class''] kvs \<noteq> None)"
  then show "fst (fst (api_create_student w req)) = 400 \<and> snd (api_create_student w req) = w"
    using sys by (auto simp: api_create_student_def)
next
  let ?row = "\<lparr>st_id = sid, st_name = nm, st_class = cl\<rparr>"
  let ?w1 = "w\<lparr>students := students w @ [?row]\<rparr>"
  assume a: "reachable w \<and> req = Json (Some kvs) \<and> map_of kvs ''id'' = Some v \<and> py_int v = Inr sid \<and>
          sid \<notin> st_id ` set (students w) \<and> int_col sid \<and>
          map_of kvs ''name'' = Some (PyStr nm) \<and> map_of kvs ''class'' = Some (PyStr cl) \<and>
          (nm = '''' \<or> cl = '''') \<and> length nm \<le> 100 \<and> length cl \<le> 50"
  then have ne: "kvs \<noteq> []" by auto
  have mf: "missing_field [''id'', ''name'', ''class''] kvs = None"
    using a by (simp add: missing_field_None)
  have flds: "create_student_fields kvs = Inr (sid, PyStr nm, PyStr cl)"
    using a by (simp add: create_student_fields_ok)
  have add: "add_student w (PyStr nm, PyStr cl) (Some sid) = (Inr sid, ?w1)"
    using a by (simp add: add_student_fresh)
  have get: "get_student ?w1 sid = Some ?row"
    using a by (simp add: get_student_appended)
  show "api_create_student w req = ((201, Student_json sid nm cl), ?w1)"
    using sys a ne mf flds add get by (simp add: api_create_student_def student_json_def)
qed

theorem create_requires_fields_only_witness:
  "system_set w_empty \<and>
   missing_field [''id'', ''name'', ''class''] [(''id'', PyInt 1), (''name'', PyStr ''Ann'')] \<noteq> None \<and>
   fst (fst (api_create_student w_empty (Json (Some [(''id'', PyInt 1), (''name'', PyStr ''Ann'')])))) = 400 \<and>
   snd (api_create_student w_empty (Json (Some [(''id'', PyInt 1), (''name'', PyStr ''Ann'')]))) = w_empty \<and>
   reachable w_empty \<and> 1 \<notin> st_id ` set (students w_empty) \<and> int_col 1 \<and>
   api_create_student w_empty (Json (Some [(''id'', PyInt 1), (''name'', PyStr ''Ann''), (''class'', PyStr '''')]))
     = ((201, Student_json 1 ''Ann'' ''''),
        w_empty\<lparr>students := students w_empty @ [\<lparr>st_id = 1, st_name = ''Ann'', st_class = ''''\<rparr>]\<rparr>)"
proof -
  have s: "system_set w_empty"
    by (simp add: w_empty_def)
  have m: "missing_field [''id'', ''name'', ''class''] [(''id'', PyInt 1), (''name'', PyStr ''Ann'')] \<noteq> None"
    by (simp add: missing_field_def)
  have r: "reachable w_empty" "1 \<notin> st_id ` set (students w_empty)" "int_col 1"
    by (simp_all add: w_empty_def int_col_def)
  show ?thesis
    using s m r
      create_requires_fields_only [OF s, of "Json (Some [(''id'', PyInt 1), (''name'', PyStr ''Ann'')])"
        "[(''id'', PyInt 1), (''name'', PyStr ''Ann''), (''class'', PyStr '''')]" "PyInt 1" 1 "''Ann''" "''''"]
      create_requires_fields_only [OF s, of "Json (Some [(''id'', PyInt 1), (''name'', PyStr ''Ann''), (''class'', PyStr '''')])"
        "[(''id'', PyInt 1), (''name'', PyStr ''Ann''), (''class'', PyStr '''')]" "PyInt 1" 1 "''Ann''" "''''"]
    by simp
qed


subsection \<open>Malformed dates\<close>

text \<open>
  What the format \<^verbatim>\<open>'%Y-%m-%d'\<close> rejects and accepts: other separators and free text are
  rejected, and so is a day the month does not have; a month or day without its leading
  zero is accepted.
\<close>

lemma strptime_slashes: "strptime_ymd ''2024/01/01'' = None"
  by (simp add: strptime_ymd_def is_digit_def)

lemma strptime_not_a_date: "strptime_ymd ''not-a-date'' = None"
  by (simp add: strptime_ymd_def is_digit_def)


lemma strptime_space_day:
  "strptime_ymd ''2024-01- 5'' = Some \<lparr>d_year = 2024, d_month = 1, d_day = 5\<rparr>"
  by (simp add: strptime_ymd_def is_digit_def is_digit19_def digit_val_def make_date_def
      days_in_month_def)

lemma strptime_no_such_day: "strptime_ymd ''2023-02-29'' = None"
  by (simp add: strptime_ymd_def is_digit_def is_digit19_def digit_val_def make_date_def
      days_in_month_def is_leap_def)




lemma spec_yyyy_mm_dd_loose:
  assumes "spec_yyyy_mm_dd s"
  shows "loose_ymd s"
proof -
  from assms have "length s = 10"
    by (simp add: spec_yyyy_mm_dd_def)
  then obtain c0 c1 c2 c3 c4 c5 c6 c7 c8 c9 where "s = [c0, c1, c2, c3, c4, c5, c6, c7, c8, c9]"
    by (auto simp: numeral_eq_Suc length_Suc_conv)
  with assms show ?thesis
    by (simp add: spec_yyyy_mm_dd_def loose_ymd_def numeral_eq_Suc)
qed


lemma mark_except_400: "fst (mark_except e) = 400"
  by (simp add: mark_except_def)





subsection \<open>Status values outside the enumeration\<close>

text \<open>
  Marking attendance checks the status itself: a status other than the strings
  \<^verbatim>\<open>Present\<close> and \<^verbatim>\<open>Absent\<close> is answered 400 whatever the store holds, and the store is
  unchanged.
\<close>

lemma mark_attendance_fields_status:
  "mark_attendance_fields kvs = Inr (sid, d, st) \<Longrightarrow> map_of kvs ''status'' = Some st"
  by (auto simp: mark_attendance_fields_def and_then_def dict_item_def
      split: sum.splits option.splits)

lemma mark_rejects_bad_status:
  assumes f: "map_of kvs ''status'' = Some st"
    and bad: "st \<notin> set [PyStr ''Present'', PyStr ''Absent'']"
  shows "\<exists>b. \<forall>w. system_set w \<longrightarrow> api_mark_attendance w (Json (Some kvs)) = ((400, b), w)"
proof -
  from f have ne: "kvs \<noteq> []" by auto
  show ?thesis
  proof (cases "missing_field [''student_id'', ''date'', ''status''] kvs")
    case (Some field)
    then show ?thesis
      using ne by (simp add: api_mark_attendance_def)
  next
    case None
    show ?thesis
    proof (cases "mark_attendance_fields kvs")
      case (Inl e)
      obtain b where b: "mark_except e = (400, b)"
        using mark_except_400 [of e] by (cases "mark_except e") simp
      show ?thesis
        using ne None Inl b by (simp add: api_mark_attendance_def)
    next
      case (Inr t)
      obtain sid d st' where t: "t = (sid, d, st')"
        by (cases t) auto
      with Inr f have "st' = st"
        using mark_attendance_fields_status [of kvs sid d st'] by simp
      then show ?thesis
        using ne None Inr t bad by (simp add: api_mark_attendance_def)
    qed
  qed
qed

text \<open>
  C8. The handler that updates an attendance record has no such check. With the status
  \<^verbatim>\<open>Late\<close>, a pair without a record is answered 404; for a pair with a record the value
  is handed to the repository and on to the \<^verbatim>\<open>UPDATE\<close> statement, and the 400 that
  comes back is the store's own error, raised by the \<^verbatim>\<open>ENUM\<close> column. The handler that
  marks attendance answers the same status with its validation message.
\<close>

theorem update_attendance_status_unchecked:
  "api_update_attendance w_ann 1 ''2024-01-10'' (Json (Some [(''status'', PyStr ''Late'')]))
     = ((404, Message ''Record not found''), w_ann) \<and>
   api_update_attendance w_ann_marked 1 ''2024-01-10'' (Json (Some [(''status'', PyStr ''Late'')]))
     = ((400, Error_exn (MySQLError Data_truncated)), w_ann_marked) \<and>
   update_attendance w_ann_marked 1 jan10 (PyStr ''Late'')
     = (Inl (MySQLError Data_truncated), w_ann_marked) \<and>
   fst (api_mark_attendance w_ann
     (Json (Some [(''student_id'', PyInt 1), (''date'', PyStr ''2024-01-10''), (''status'', PyStr ''Late'')])))
     = (400, Error_text ''Status must be either Present or Absent'')"
  by (simp add: api_update_attendance_def strptime_jan10 w_ann_def w_ann_marked_def
      get_attendance_def connect_db_def select_attendance_def update_attendance_def
      update_attendance_rows_def dict_get_def api_mark_attendance_def missing_field_def
      mark_attendance_fields_def and_then_def dict_item_def)

subsection \<open>Updating a student\<close>

lemma find_map_update:
  "find (\<lambda>r. st_id r = sid) (map (\<lambda>r. if st_id r = sid then r\<lparr>st_name := n, st_class := c\<rparr> else r) xs)
     = map_option (\<lambda>r. r\<lparr>st_name := n, st_class := c\<rparr>) (find (\<lambda>r. st_id r = sid) xs)"
  by (induction xs) auto

text \<open>
  C9, as stated, does not hold: a request that supplies the name only, for a student
  that exists, does not succeed. The handler sends \<open>None\<close> for the class, the statement
  overwrites both columns, and the \<^verbatim>\<open>NOT NULL\<close> column refuses it.
\<close>

theorem update_one_field_counterexample:
  "1 \<in> st_id ` set (students w_ann) \<and>
   api_update_student w_ann 1 (Json (Some [(''name'', PyStr ''Bob'')]))
     = ((400, Error_exn (MySQLError Column_cannot_be_null)), w_ann)"
  by (simp add: api_update_student_def w_ann_def get_student_def connect_db_def
      select_student_def update_student_def update_student_rows_def dict_get_def)

text \<open>
  C9, amended. For an id that is not in the table the update, whatever the decoded
  body, is answered 404 and the store is unchanged. For an id that is in the table of a
  reachable store, a request that supplies both name and class, as strings that fit
  their columns, is answered 200 and the row holds exactly the supplied name and class.
\<close>

theorem update_student_full_overwrite:
  assumes sys: "system_set w"
  shows "(sid \<notin> st_id ` set (students w) \<longrightarrow>
            api_update_student w sid (Json data) = ((404, Message ''Student not found''), w)) \<and>
         (reachable w \<and> sid \<in> st_id ` set (students w) \<and>
          map_of kvs ''name'' = Some (PyStr nm) \<and> map_of kvs ''class'' = Some (PyStr cl) \<and>
          length nm \<le> 100 \<and> length cl \<le> 50
          \<longrightarrow> api_update_student w sid (Json (Some kvs))
                = ((200, Student_json sid nm cl),
                   w\<lparr>students :=
                       map (\<lambda>r. if st_id r = sid then r\<lparr>st_name := nm, st_class := cl\<rparr> else r)
                         (students w)\<rparr>))"
proof (rule conjI; rule impI)
  assume "sid \<notin> st_id ` set (students w)"
  then have "get_student w sid = None"
    by (simp add: get_student_def select_student_None_iff)
  then show "api_update_student w sid (Json data) = ((404, Message ''Student not found''), w)"
    using sys by (simp add: api_update_student_def)
next
  let ?upd = "\<lambda>r. if st_id r = sid then r\<lparr>st_name := nm, st_class := cl\<rparr> else r"
  let ?w1 = "w\<lparr>students := map ?upd (students w)\<rparr>"
  assume a: "reachable w \<and> sid \<in> st_id ` set (students w) \<and>
          map_of kvs ''name'' = Some (PyStr nm) \<and> map_of kvs ''class'' = Some (PyStr cl) \<and>
          length nm \<le> 100 \<and> length cl \<le> 50"
  then have stu: "select_student sid w \<noteq> None"
    by (simp add: select_student_None_iff)
  then obtain r where r: "select_student sid w = Some r"
    by auto
  then have rid: "st_id r = sid"
    by (auto simp: select_student_def find_Some_iff)
  have ex: "get_student w sid = Some r"
    using a r by (simp add: get_student_def connect_db_def)
  have upd: "update_student w sid (PyStr nm, PyStr cl) = (Inr (), ?w1)"
    using a r by (simp add: update_student_def connect_db_def update_student_rows_def)
  have get: "get_student ?w1 sid = Some (r\<lparr>st_name := nm, st_class := cl\<rparr>)"
    using a r by (simp add: get_student_def connect_db_def select_student_def find_map_update)
  show "api_update_student w sid (Json (Some kvs)) = ((200, Student_json sid nm cl), ?w1)"
    using sys a ex upd get rid by (simp add: api_update_student_def dict_get_def student_json_def)
qed

theorem update_student_full_overwrite_witness:
  "system_set w_ann \<and> reachable w_ann \<and> 1 \<in> st_id ` set (students w_ann) \<and>
   2 \<notin> st_id ` set (students w_ann) \<and>
   api_update_student w_ann 2 (Json (Some [(''name'', PyStr ''Bob''), (''class'', PyStr ''5B'')]))
     = ((404, Message ''Student not found''), w_ann) \<and>
   api_update_student w_ann 1 (Json (Some [(''name'', PyStr ''Bob''), (''class'', PyStr ''5B'')]))
     = ((200, Student_json 1 ''Bob'' ''5B''),
        w_ann\<lparr>students := [\<lparr>st_id = 1, st_name = ''Bob'', st_class = ''5B''\<rparr>]\<rparr>)"
proof -
  have s: "system_set w_ann"
    by (simp add: w_ann_def)
  have h: "reachable w_ann" "1 \<in> st_id ` set (students w_ann)" "2 \<notin> st_id ` set (students w_ann)"
    by (simp_all add: w_ann_def)
  have e: "w_ann\<lparr>students :=
             map (\<lambda>r. if st_id r = 1 then r\<lparr>st_name := ''Bob'', st_class := ''5B''\<rparr> else r)
               (students w_ann)\<rparr>
           = w_ann\<lparr>students := [\<lparr>st_id = 1, st_name = ''Bob'', st_class = ''5B''\<rparr>]\<rparr>"
    by (simp add: w_ann_def)
  show ?thesis
    using s h
      update_student_full_overwrite [OF s, of 2 "Some [(''name'', PyStr ''Bob''), (''class'', PyStr ''5B'')]"
        "[]" "[]" "[]"]
      update_student_full_overwrite [OF s, of 1 None
        "[(''name'', PyStr ''Bob''), (''class'', PyStr ''5B'')]" "''Bob''" "''5B''"]
    unfolding e by auto
qed


subsection \<open>A body that cannot be decoded\<close>

text \<open>
  When \<^verbatim>\<open>get_json\<close> raises, creating a student and marking attendance answer 500, and
  the two updating handlers answer 400; the store is not touched.
\<close>

lemma undecodable_body:
  "system_set w \<Longrightarrow>
     api_create_student w Bad_request = ((500, Error_exn BadRequest), w) \<and>
     api_mark_attendance w Bad_request = ((500, Error_exn BadRequest), w) \<and>
     api_update_student w sid Bad_request = ((400, Error_exn BadRequest), w) \<and>
     (strptime_ymd ds = Some d \<longrightarrow>
        api_update_attendance w sid ds Bad_request = ((400, Error_exn BadRequest), w))"
  by (simp add: api_create_student_def api_mark_attendance_def api_update_student_def
      api_update_attendance_def)

section \<open>The schema is an invariant of the repository\<close>

text \<open>
  The empty store satisfies the schema, and every repository method that writes returns
  a store that satisfies it when the store it was given did, whether the method succeeds
  or raises.
\<close>

lemma varchar_length: "varchar n v = Inr s \<Longrightarrow> length s \<le> n"
  by (cases v) (auto split: if_splits)

lemma status_col_valid: "status_col v = Inr s \<Longrightarrow> s \<in> set [''Present'', ''Absent'']"
  by (cases v) (auto split: if_splits)

lemma schema_ok_empty: "schema_ok w_empty"
  by (simp add: schema_ok_def w_empty_def)

lemma insert_student_schema_ok:
  assumes ok: "schema_ok w" and ins: "insert_student sid nm cl w = Inr w'"
  shows "schema_ok w'"
proof -
  from ins obtain n c where rng: "int_col sid"
    and n: "varchar 100 nm = Inr n" and c: "varchar 50 cl = Inr c"
    and fresh: "select_student sid w = None"
    and w': "w' = w\<lparr>students := students w @ [\<lparr>st_id = sid, st_name = n, st_class = c\<rparr>]\<rparr>"
    by (auto simp: insert_student_def split: if_splits sum.splits)
  from fresh have "sid \<notin> st_id ` set (students w)"
    by (simp add: select_student_None_iff)
  then show ?thesis
    using ok rng varchar_length [OF n] varchar_length [OF c]
    by (auto simp: schema_ok_def w')
qed

lemma add_student_schema_ok:
  "schema_ok w \<Longrightarrow> schema_ok (snd (add_student w student student_id))"
  by (auto simp: add_student_def insert_student_schema_ok split: option.splits sum.splits)

lemma update_student_rows_schema_ok:
  assumes ok: "schema_ok w" and upd: "update_student_rows sid nm cl w = Inr w'"
  shows "schema_ok w'"
proof (cases "select_student sid w = None")
  case True
  with upd ok show ?thesis
    by (simp add: update_student_rows_def)
next
  case False
  with upd obtain n c where n: "varchar 100 nm = Inr n" and c: "varchar 50 cl = Inr c"
    and w': "w' = w\<lparr>students :=
                 map (\<lambda>r. if st_id r = sid then r\<lparr>st_name := n, st_class := c\<rparr> else r)
                   (students w)\<rparr>"
    by (auto simp: update_student_rows_def split: sum.splits)
  define xs where
    "xs = map (\<lambda>r. if st_id r = sid then r\<lparr>st_name := n, st_class := c\<rparr> else r) (students w)"
  have ids: "map st_id xs = map st_id (students w)"
    unfolding xs_def by (induction "students w") auto
  from arg_cong [OF ids, of set] have ids': "st_id ` set xs = st_id ` set (students w)"
    by (simp only: set_map)
  have rows: "\<forall>r \<in> set xs. int_col (st_id r) \<and> length (st_name r) \<le> 100 \<and> length (st_class r) \<le> 50"
    using ok varchar_length [OF n] varchar_length [OF c]
    by (auto simp: xs_def schema_ok_def)
  have "w' = w\<lparr>students := xs\<rparr>"
    by (simp add: w' xs_def)
  then show ?thesis
    using ok rows by (simp add: schema_ok_def ids ids')
qed

lemma update_student_schema_ok:
  "schema_ok w \<Longrightarrow> schema_ok (snd (update_student w sid new_data))"
  by (auto simp: update_student_def update_student_rows_schema_ok split: sum.splits)

lemma delete_student_schema_ok:
  assumes ok: "schema_ok w"
  shows "schema_ok (snd (delete_student w sid))"
proof -
  have "schema_ok w'" if "delete_student_row sid (delete_attendance_rows_of sid w) = Inr w'" for w'
  proof -
    from that have w': "w' = w\<lparr>students := filter (\<lambda>r. st_id r \<noteq> sid) (students w),
                attendance := filter (\<lambda>r. a_student_id r \<noteq> sid) (attendance w)\<rparr>"
      by (auto simp: delete_student_row_def delete_attendance_rows_of_def split: if_splits)
    show ?thesis
      using ok by (auto simp: schema_ok_def w' distinct_map_filter)
  qed
  then show ?thesis
    using ok by (auto simp: delete_student_def split: sum.splits)
qed

lemma insert_attendance_schema_ok:
  assumes ok: "schema_ok w" and ins: "insert_attendance sid d st w = Inr w'"
  shows "schema_ok w'"
proof -
  from ins obtain s where s: "status_col st = Inr s"
    and fresh: "select_attendance sid d w = None"
    and stu: "select_student sid w \<noteq> None"
    and w': "w' = w\<lparr>attendance := attendance w @ [\<lparr>a_student_id = sid, a_date = d, a_status = s\<rparr>]\<rparr>"
    by (auto simp: insert_attendance_def split: if_splits sum.splits)
  from fresh have new: "(sid, d) \<notin> (\<lambda>r. (a_student_id r, a_date r)) ` set (attendance w)"
    by (auto simp: select_attendance_None_iff)
  from stu have ex: "sid \<in> st_id ` set (students w)"
    by (simp add: select_student_None_iff)
  show ?thesis
    using ok new ex status_col_valid [OF s]
    by (auto simp: schema_ok_def w')
qed

lemma mark_attendance_schema_ok:
  "schema_ok w \<Longrightarrow> schema_ok (snd (mark_attendance w sid d st))"
  by (auto simp: mark_attendance_def insert_attendance_schema_ok split: sum.splits)

lemma update_attendance_rows_schema_ok:
  assumes ok: "schema_ok w" and upd: "update_attendance_rows sid d st w = Inr w'"
  shows "schema_ok w'"
proof (cases "select_attendance sid d w = None")
  case True
  with upd ok show ?thesis
    by (simp add: update_attendance_rows_def)
next
  case False
  with upd obtain s where s: "status_col st = Inr s"
    and w': "w' = w\<lparr>attendance :=
                 map (\<lambda>r. if a_student_id r = sid \<and> a_date r = d then r\<lparr>a_status := s\<rparr> else r)
                   (attendance w)\<rparr>"
    by (auto simp: update_attendance_rows_def split: sum.splits)
  have keys: "map (\<lambda>r. (a_student_id r, a_date r))
                (map (\<lambda>r. if a_student_id r = sid \<and> a_date r = d then r\<lparr>a_status := s\<rparr> else r) xs)
               = map (\<lambda>r. (a_student_id r, a_date r)) xs" for xs :: "attendance_row list"
    by (induction xs) auto
  show ?thesis
    using ok status_col_valid [OF s]
    by (auto simp: schema_ok_def w' keys simp del: map_map)
qed

lemma update_attendance_schema_ok:
  "schema_ok w \<Longrightarrow> schema_ok (snd (update_attendance w sid d st))"
  by (auto simp: update_attendance_def update_attendance_rows_schema_ok split: sum.splits)

lemma delete_attendance_schema_ok:
  "schema_ok w \<Longrightarrow> schema_ok (snd (delete_attendance w sid d))"
  by (auto simp: delete_attendance_def delete_attendance_row_def schema_ok_def distinct_map_filter)

section \<open>The scenarios of the specification\<close>

text \<open>
  Create student 1, mark the student present on 2024-01-10 (201), mark the same day
  again as absent (400), read the record (still present), update it to absent, delete
  the student, and read the record again (404).
\<close>

lemma isoformat_jan10: "isoformat jan10 = ''2024-01-10''"
  by code_simp

lemma str_int_1: "str_int 1 = ''1''"
  by code_simp

lemma scenario_create: 
  "api_create_student w_empty (Json (Some [(''id'', PyInt 1), (''name'', PyStr ''Ann''), (''class'', PyStr ''5A'')]))
     = ((201, Student_json 1 ''Ann'' ''5A''), w_ann)"
  by code_simp

lemma scenario_mark_first:
  "api_mark_attendance w_ann
     (Json (Some [(''student_id'', PyInt 1), (''date'', PyStr ''2024-01-10''), (''status'', PyStr ''Present'')]))
     = ((201, Attendance_json 1 ''2024-01-10'' ''Present''), w_ann_marked)"
  by code_simp

lemma scenario_mark_second:
  "api_mark_attendance w_ann_marked
     (Json (Some [(''student_id'', PyInt 1), (''date'', PyStr ''2024-01-10''), (''status'', PyStr ''Absent'')]))
     = ((400, Error_exn (Exception (Already_marked 1 jan10))), w_ann_marked)"
  by code_simp

lemma scenario_get:
  "api_get_attendance w_ann_marked 1 ''2024-01-10''
     = ((200, Attendance_json 1 ''2024-01-10'' ''Present''), w_ann_marked)"
  by code_simp

lemma scenario_update:
  "api_update_attendance w_ann_marked 1 ''2024-01-10'' (Json (Some [(''status'', PyStr ''Absent'')]))
     = ((200, Attendance_json 1 ''2024-01-10'' ''Absent''),
        w_ann\<lparr>attendance := [\<lparr>a_student_id = 1, a_date = jan10, a_status = ''Absent''\<rparr>]\<rparr>)"
  by code_simp

lemma scenario_delete:
  "api_delete_student w_ann_marked 1 = ((200, Message ''Student id=1 deleted''), w_empty)"
  by code_simp

lemma scenario_get_after_delete:
  "api_get_attendance w_empty 1 ''2024-01-10''
     = ((404, Message ''Attendance record not found''), w_empty)"
  by code_simp


end
